theory Spec2Isabelle
  imports Main
begin

section \<open>The storage gateway of server/db-storage.ts\<close>

text \<open>
  The class \<open>DatabaseStorage\<close> maps every operation of the storage contract to one call
  of the persistence engine. The model keeps the five tables as lists of rows (in
  insertion order), passes the store explicitly, and returns errors as values. What the
  environment decides is an argument of the operation: the reading of the clock
  (\<open>new Date()\<close>), the salt drawn by \<open>bcrypt.hash\<close>, the identifier and the timestamp
  the engine gives a new row, and whether the engine carries a call out.
\<close>

subsection \<open>Values and errors\<close>

type_synonym timestamp = nat \<comment> \<open>a \<open>Date\<close>: milliseconds since the epoch\<close>

datatype error =
    NotFound string \<comment> \<open>\<open>throw new Error("... not found")\<close>, with its message\<close>
  | PersistenceFailure \<comment> \<open>the engine's call rejected; propagated unchanged\<close>
  | NoValuesToSet \<comment> \<open>the query builder's \<open>Error("No values to set")\<close>\<close>

datatype engine_reply = Completes | Fails

subsection \<open>Rows of the five tables\<close>

text \<open>
  Modelled from the spec: the table and type declarations of \<open>@shared/schema\<close> are not
  among the sources. The columns are those the gateway names (\<open>id\<close>, \<open>username\<close>,
  \<open>email\<close>, \<open>password\<close>, \<open>role\<close>, \<open>fullName\<close>, \<open>mobileNumber\<close>, \<open>city\<close>,
  \<open>isActive\<close>, \<open>userId\<close>, \<open>assignedDsaId\<close>, \<open>assignedAt\<close>, \<open>status\<close>,
  \<open>kycStatus\<close>, \<open>source\<close>, \<open>updatedAt\<close>) and those of section 3 of the specification
  (creation timestamps; the domain fields the layer does not look at, kept as one
  payload column). Enumerated columns hold the string the gateway writes into them.
\<close>

record User =
  u_id :: string
  u_username :: string
  u_email :: string
  u_password :: string
  u_role :: string
  u_fullName :: string
  u_mobileNumber :: string
  u_city :: string
  u_isActive :: bool
  u_createdAt :: timestamp
  u_updatedAt :: timestamp

record LoanApplication =
  la_id :: string
  la_userId :: string
  la_assignedDsaId :: "string option"
  la_status :: string
  la_payload :: string
  la_createdAt :: timestamp
  la_updatedAt :: timestamp

record DsaPartner =
  dp_id :: string
  dp_userId :: string
  dp_kycStatus :: string
  dp_payload :: string
  dp_createdAt :: timestamp
  dp_updatedAt :: timestamp

record Lead =
  ld_id :: string
  ld_payload :: string
  ld_source :: string
  ld_status :: string
  ld_assignedDsaId :: "string option"
  ld_assignedAt :: "timestamp option"
  ld_createdAt :: timestamp
  ld_updatedAt :: timestamp

record ContactQuery =
  cq_id :: string
  cq_payload :: string
  cq_status :: string
  cq_updatedAt :: timestamp

text \<open>The store: what the engine holds, one list per table.\<close>

record store =
  users :: "User list"
  loanApplications :: "LoanApplication list"
  dsaPartners :: "DsaPartner list"
  leads :: "Lead list"
  contactQueries :: "ContactQuery list"

definition empty_store :: store where
  "empty_store = \<lparr>users = [], loanApplications = [], dsaPartners = [], leads = [],
     contactQueries = []\<rparr>"

subsection \<open>Creation inputs and partial records\<close>

text \<open>
  \<open>InsertUser\<close> and \<open>InsertLead\<close>: an optional property is \<open>None\<close> when the caller left
  it out. \<open>Partial<T>\<close>: every column of the row is optional; \<open>None\<close> is a property
  that is absent (or \<open>undefined\<close>, which \<open>set\<close> skips), \<open>Some v\<close> one that is supplied.
  A nullable column supplied as \<open>null\<close> is \<open>Some None\<close>.
\<close>

record InsertUser =
  iu_username :: string
  iu_email :: string
  iu_password :: string
  iu_role :: "string option"
  iu_fullName :: string
  iu_mobileNumber :: string
  iu_city :: string

record InsertLead =
  il_payload :: string
  il_source :: "string option"
  il_status :: "string option"

record PartialUser =
  pu_id :: "string option"
  pu_username :: "string option"
  pu_email :: "string option"
  pu_password :: "string option"
  pu_role :: "string option"
  pu_fullName :: "string option"
  pu_mobileNumber :: "string option"
  pu_city :: "string option"
  pu_isActive :: "bool option"
  pu_createdAt :: "timestamp option"
  pu_updatedAt :: "timestamp option"

record PartialLoanApplication =
  pla_id :: "string option"
  pla_userId :: "string option"
  pla_assignedDsaId :: "string option option"
  pla_status :: "string option"
  pla_payload :: "string option"
  pla_createdAt :: "timestamp option"
  pla_updatedAt :: "timestamp option"

record PartialDsaPartner =
  pdp_id :: "string option"
  pdp_userId :: "string option"
  pdp_kycStatus :: "string option"
  pdp_payload :: "string option"
  pdp_createdAt :: "timestamp option"
  pdp_updatedAt :: "timestamp option"

record PartialLead =
  pld_id :: "string option"
  pld_payload :: "string option"
  pld_source :: "string option"
  pld_status :: "string option"
  pld_assignedDsaId :: "string option option"
  pld_assignedAt :: "timestamp option option"
  pld_createdAt :: "timestamp option"
  pld_updatedAt :: "timestamp option"

record PartialContactQuery =
  pcq_id :: "string option"
  pcq_payload :: "string option"
  pcq_status :: "string option"
  pcq_updatedAt :: "timestamp option"

text \<open>The empty object \<open>{}\<close> at each partial type.\<close>

definition no_user_updates :: PartialUser where
  "no_user_updates = \<lparr>pu_id = None, pu_username = None, pu_email = None, pu_password = None,
     pu_role = None, pu_fullName = None, pu_mobileNumber = None, pu_city = None,
     pu_isActive = None, pu_createdAt = None, pu_updatedAt = None\<rparr>"

definition no_application_updates :: PartialLoanApplication where
  "no_application_updates = \<lparr>pla_id = None, pla_userId = None, pla_assignedDsaId = None,
     pla_status = None, pla_payload = None, pla_createdAt = None, pla_updatedAt = None\<rparr>"

definition no_partner_updates :: PartialDsaPartner where
  "no_partner_updates = \<lparr>pdp_id = None, pdp_userId = None, pdp_kycStatus = None,
     pdp_payload = None, pdp_createdAt = None, pdp_updatedAt = None\<rparr>"

definition no_lead_updates :: PartialLead where
  "no_lead_updates = \<lparr>pld_id = None, pld_payload = None, pld_source = None,
     pld_status = None, pld_assignedDsaId = None, pld_assignedAt = None,
     pld_createdAt = None, pld_updatedAt = None\<rparr>"


subsection \<open>The persistence engine\<close>

text \<open>
  Modelled from the spec: the module \<open>./db\<close> and the query builder are not among the
  sources. Section 6 of the specification gives the contract: select-where with an
  optional limit returns the matching rows in order; insert-one-returning returns the
  persisted row; update-where applies the values to every matching row and returns the
  updated rows, the empty sequence when nothing matched. A call that the engine does not
  carry out (section 7: engine unreachable, constraint violation) is a persistence
  failure and leaves the table as it was.

  The query builder is a library outside the repository. Its \<open>set\<close> refuses a values
  record that supplies no column: it throws \<open>No values to set\<close> while the statement is
  built, before any call reaches the engine. The first argument of \<open>db_update\<close> says
  whether the record given to \<open>set\<close> is such a record.
\<close>

definition db_select ::
  "engine_reply \<Rightarrow> ('r \<Rightarrow> bool) \<Rightarrow> nat option \<Rightarrow> 'r list \<Rightarrow> error + 'r list" where
  "db_select reply wh lim tbl =
     (case reply of
        Fails \<Rightarrow> Inl PersistenceFailure
      | Completes \<Rightarrow>
          Inr (case lim of None \<Rightarrow> filter wh tbl | Some n \<Rightarrow> take n (filter wh tbl)))"

definition db_insert ::
  "engine_reply \<Rightarrow> 'r \<Rightarrow> 'r list \<Rightarrow> error + ('r list \<times> 'r list)" where
  "db_insert reply row tbl =
     (case reply of
        Fails \<Rightarrow> Inl PersistenceFailure
      | Completes \<Rightarrow> Inr (tbl @ [row], [row]))"

definition db_update ::
  "bool \<Rightarrow> engine_reply \<Rightarrow> ('r \<Rightarrow> 'r) \<Rightarrow> ('r \<Rightarrow> bool) \<Rightarrow> 'r list
     \<Rightarrow> error + ('r list \<times> 'r list)" where
  "db_update no_values reply set_values wh tbl =
     (if no_values then Inl NoValuesToSet
      else case reply of
        Fails \<Rightarrow> Inl PersistenceFailure
      | Completes \<Rightarrow>
          Inr (map (\<lambda>r. if wh r then set_values r else r) tbl,
               map set_values (filter wh tbl)))"

text \<open>\<open>result[0]\<close>: the first row, \<open>undefined\<close> (\<open>None\<close>) on the empty array.\<close>

definition first_row :: "'r list \<Rightarrow> 'r option" where
  "first_row result = (case result of [] \<Rightarrow> None | r # _ \<Rightarrow> Some r)"

text \<open>
  \<open>a || d\<close> on an optional string: \<open>undefined\<close>, \<open>null\<close> and the empty string are
  falsy and give the default.
\<close>

definition js_or :: "string option \<Rightarrow> string \<Rightarrow> string" where
  "js_or a d = (case a of None \<Rightarrow> d | Some s \<Rightarrow> if s = [] then d else s)"

text \<open>
  What \<open>set\<close> does to one column: a supplied value replaces the stored one, an absent
  property leaves it.
\<close>

definition set_col :: "'a option \<Rightarrow> 'a \<Rightarrow> 'a" where
  "set_col supplied stored = (case supplied of None \<Rightarrow> stored | Some v \<Rightarrow> v)"

definition set_user :: "PartialUser \<Rightarrow> User \<Rightarrow> User" where
  "set_user p u =
     \<lparr>u_id = set_col (pu_id p) (u_id u),
      u_username = set_col (pu_username p) (u_username u),
      u_email = set_col (pu_email p) (u_email u),
      u_password = set_col (pu_password p) (u_password u),
      u_role = set_col (pu_role p) (u_role u),
      u_fullName = set_col (pu_fullName p) (u_fullName u),
      u_mobileNumber = set_col (pu_mobileNumber p) (u_mobileNumber u),
      u_city = set_col (pu_city p) (u_city u),
      u_isActive = set_col (pu_isActive p) (u_isActive u),
      u_createdAt = set_col (pu_createdAt p) (u_createdAt u),
      u_updatedAt = set_col (pu_updatedAt p) (u_updatedAt u)\<rparr>"

definition set_application :: "PartialLoanApplication \<Rightarrow> LoanApplication \<Rightarrow> LoanApplication" where
  "set_application p a =
     \<lparr>la_id = set_col (pla_id p) (la_id a),
      la_userId = set_col (pla_userId p) (la_userId a),
      la_assignedDsaId = set_col (pla_assignedDsaId p) (la_assignedDsaId a),
      la_status = set_col (pla_status p) (la_status a),
      la_payload = set_col (pla_payload p) (la_payload a),
      la_createdAt = set_col (pla_createdAt p) (la_createdAt a),
      la_updatedAt = set_col (pla_updatedAt p) (la_updatedAt a)\<rparr>"

definition set_partner :: "PartialDsaPartner \<Rightarrow> DsaPartner \<Rightarrow> DsaPartner" where
  "set_partner p d =
     \<lparr>dp_id = set_col (pdp_id p) (dp_id d),
      dp_userId = set_col (pdp_userId p) (dp_userId d),
      dp_kycStatus = set_col (pdp_kycStatus p) (dp_kycStatus d),
      dp_payload = set_col (pdp_payload p) (dp_payload d),
      dp_createdAt = set_col (pdp_createdAt p) (dp_createdAt d),
      dp_updatedAt = set_col (pdp_updatedAt p) (dp_updatedAt d)\<rparr>"

definition set_lead :: "PartialLead \<Rightarrow> Lead \<Rightarrow> Lead" where
  "set_lead p l =
     \<lparr>ld_id = set_col (pld_id p) (ld_id l),
      ld_payload = set_col (pld_payload p) (ld_payload l),
      ld_source = set_col (pld_source p) (ld_source l),
      ld_status = set_col (pld_status p) (ld_status l),
      ld_assignedDsaId = set_col (pld_assignedDsaId p) (ld_assignedDsaId l),
      ld_assignedAt = set_col (pld_assignedAt p) (ld_assignedAt l),
      ld_createdAt = set_col (pld_createdAt p) (ld_createdAt l),
      ld_updatedAt = set_col (pld_updatedAt p) (ld_updatedAt l)\<rparr>"

definition set_query :: "PartialContactQuery \<Rightarrow> ContactQuery \<Rightarrow> ContactQuery" where
  "set_query p q =
     \<lparr>cq_id = set_col (pcq_id p) (cq_id q),
      cq_payload = set_col (pcq_payload p) (cq_payload q),
      cq_status = set_col (pcq_status p) (cq_status q),
      cq_updatedAt = set_col (pcq_updatedAt p) (cq_updatedAt q)\<rparr>"

text \<open>
  A values record supplies no column when every property is absent (or \<open>undefined\<close>).
\<close>

definition user_values_empty :: "PartialUser \<Rightarrow> bool" where
  "user_values_empty p =
     (pu_id p = None \<and> pu_username p = None \<and> pu_email p = None \<and> pu_password p = None \<and>
      pu_role p = None \<and> pu_fullName p = None \<and> pu_mobileNumber p = None \<and>
      pu_city p = None \<and> pu_isActive p = None \<and> pu_createdAt p = None \<and>
      pu_updatedAt p = None)"

definition application_values_empty :: "PartialLoanApplication \<Rightarrow> bool" where
  "application_values_empty p =
     (pla_id p = None \<and> pla_userId p = None \<and> pla_assignedDsaId p = None \<and>
      pla_status p = None \<and> pla_payload p = None \<and> pla_createdAt p = None \<and>
      pla_updatedAt p = None)"

definition partner_values_empty :: "PartialDsaPartner \<Rightarrow> bool" where
  "partner_values_empty p =
     (pdp_id p = None \<and> pdp_userId p = None \<and> pdp_kycStatus p = None \<and>
      pdp_payload p = None \<and> pdp_createdAt p = None \<and> pdp_updatedAt p = None)"

definition lead_values_empty :: "PartialLead \<Rightarrow> bool" where
  "lead_values_empty p =
     (pld_id p = None \<and> pld_payload p = None \<and> pld_source p = None \<and>
      pld_status p = None \<and> pld_assignedDsaId p = None \<and> pld_assignedAt p = None \<and>
      pld_createdAt p = None \<and> pld_updatedAt p = None)"

definition query_values_empty :: "PartialContactQuery \<Rightarrow> bool" where
  "query_values_empty p =
     (pcq_id p = None \<and> pcq_payload p = None \<and> pcq_status p = None \<and>
      pcq_updatedAt p = None)"

subsection \<open>The credential library\<close>

text \<open>
  \<open>bcrypt\<close> is a library outside the repository, so its two functions are a parameter:
  \<open>bc_hash plaintext cost salt\<close> for \<open>bcrypt.hash(plaintext, cost)\<close>, which draws the
  salt itself, and \<open>bc_compare plaintext hashed\<close> for \<open>bcrypt.compare\<close>.
\<close>

record bcrypt =
  bc_hash :: "string \<Rightarrow> nat \<Rightarrow> string \<Rightarrow> string"
  bc_compare :: "string \<Rightarrow> string \<Rightarrow> bool"

subsection \<open>User operations\<close>

definition getUser :: "engine_reply \<Rightarrow> store \<Rightarrow> string \<Rightarrow> error + User option" where
  "getUser reply db ident =
     (case db_select reply (\<lambda>u. u_id u = ident) (Some 1) (users db) of
        Inl e \<Rightarrow> Inl e
      | Inr result \<Rightarrow> Inr (first_row result))"

definition getUserByUsername :: "engine_reply \<Rightarrow> store \<Rightarrow> string \<Rightarrow> error + User option" where
  "getUserByUsername reply db username =
     (case db_select reply (\<lambda>u. u_username u = username) (Some 1) (users db) of
        Inl e \<Rightarrow> Inl e
      | Inr result \<Rightarrow> Inr (first_row result))"

text \<open>
  \<open>createUser\<close>: the engine completes the row with the identifier \<open>new_id\<close> and its own
  clock reading \<open>db_now\<close> for both timestamps.
\<close>

definition createUser ::
  "bcrypt \<Rightarrow> engine_reply \<Rightarrow> string \<Rightarrow> string \<Rightarrow> timestamp \<Rightarrow> store \<Rightarrow> InsertUser
     \<Rightarrow> error + (store \<times> User option)" where
  "createUser B reply salt new_id db_now db insertUser =
     (let hashedPassword = bc_hash B (iu_password insertUser) 10 salt in
      case db_insert reply
             \<lparr>u_id = new_id,
              u_username = iu_username insertUser,
              u_email = iu_email insertUser,
              u_password = hashedPassword,
              u_role = js_or (iu_role insertUser) ''user'',
              u_fullName = iu_fullName insertUser,
              u_mobileNumber = iu_mobileNumber insertUser,
              u_city = iu_city insertUser,
              u_isActive = True,
              u_createdAt = db_now,
              u_updatedAt = db_now\<rparr>
             (users db) of
        Inl e \<Rightarrow> Inl e
      | Inr (tbl, result) \<Rightarrow> Inr (db\<lparr>users := tbl\<rparr>, first_row result))"

definition updateUser ::
  "engine_reply \<Rightarrow> timestamp \<Rightarrow> store \<Rightarrow> string \<Rightarrow> PartialUser \<Rightarrow> error + (store \<times> User)" where
  "updateUser reply now db ident updates =
     (case db_update (user_values_empty (updates\<lparr>pu_updatedAt := Some now\<rparr>)) reply
             (set_user (updates\<lparr>pu_updatedAt := Some now\<rparr>))
             (\<lambda>u. u_id u = ident) (users db) of
        Inl e \<Rightarrow> Inl e
      | Inr (tbl, result) \<Rightarrow>
          (case result of
             [] \<Rightarrow> Inl (NotFound ''User not found'')
           | r # _ \<Rightarrow> Inr (db\<lparr>users := tbl\<rparr>, r)))"

definition authenticateUser ::
  "bcrypt \<Rightarrow> engine_reply \<Rightarrow> store \<Rightarrow> string \<Rightarrow> string \<Rightarrow> error + User option" where
  "authenticateUser B reply db username password =
     (case getUserByUsername reply db username of
        Inl e \<Rightarrow> Inl e
      | Inr None \<Rightarrow> Inr None
      | Inr (Some user) \<Rightarrow>
          (let isValid = bc_compare B password (u_password user) in
           if isValid then Inr (Some user) else Inr None))"

subsection \<open>Bootstrap\<close>

text \<open>
  One run of \<open>initializeDefaultUsers\<close> makes up to two engine calls, so its environment
  has a reply for each, the salt of the hash, and the identifier and timestamp of the
  new row.
\<close>

record boot_env =
  be_select :: engine_reply
  be_insert :: engine_reply
  be_salt :: string
  be_new_id :: string
  be_now :: timestamp

text \<open>The body of the \<open>try\<close> block; the second component is the console output.\<close>

definition default_users_try ::
  "bcrypt \<Rightarrow> boot_env \<Rightarrow> store \<Rightarrow> error + (store \<times> string list)" where
  "default_users_try B env db =
     (case db_select (be_select env) (\<lambda>u. u_username u = ''admin'') (Some 1) (users db) of
        Inl e \<Rightarrow> Inl e
      | Inr existingAdmin \<Rightarrow>
          if length existingAdmin = 0 then
            (let hashedPassword = bc_hash B ''admin123'' 10 (be_salt env) in
             case db_insert (be_insert env)
                    \<lparr>u_id = be_new_id env,
                     u_username = ''admin'',
                     u_email = ''admin@jsmf.com'',
                     u_password = hashedPassword,
                     u_role = ''admin'',
                     u_fullName = ''System Administrator'',
                     u_mobileNumber = ''+91 91626 207918'',
                     u_city = ''Bhopal'',
                     u_isActive = True,
                     u_createdAt = be_now env,
                     u_updatedAt = be_now env\<rparr>
                    (users db) of
               Inl e \<Rightarrow> Inl e
             | Inr (tbl, _) \<Rightarrow> Inr (db\<lparr>users := tbl\<rparr>, [''Default admin user created'']))
          else Inr (db, []))"

text \<open>\<open>try { ... } catch (error) { console.error(...) }\<close>: the error ends on the console.\<close>

definition initializeDefaultUsers :: "bcrypt \<Rightarrow> boot_env \<Rightarrow> store \<Rightarrow> store \<times> string list" where
  "initializeDefaultUsers B env db =
     (case default_users_try B env db of
        Inl e \<Rightarrow> (db, [''Error initializing default users:''])
      | Inr done \<Rightarrow> done)"

text \<open>
  The constructor calls the bootstrap and yields the gateway, here the store it works
  on. The call is not awaited and its promise never rejects, since the \<open>catch\<close> takes
  every error; the model takes a process start to be over when the bootstrap has
  settled. Successive process starts are successive constructions over the same store.
\<close>

definition DatabaseStorage :: "bcrypt \<Rightarrow> boot_env \<Rightarrow> store \<Rightarrow> store" where
  "DatabaseStorage B env db = fst (initializeDefaultUsers B env db)"

fun process_starts :: "bcrypt \<Rightarrow> boot_env list \<Rightarrow> store \<Rightarrow> store" where
  "process_starts B [] db = db"
| "process_starts B (env # envs) db = process_starts B envs (DatabaseStorage B env db)"

definition admin_count :: "store \<Rightarrow> nat" where
  "admin_count db = length (filter (\<lambda>u. u_username u = ''admin'') (users db))"

subsection \<open>Loan application and partner operations\<close>

definition updateLoanApplication ::
  "engine_reply \<Rightarrow> timestamp \<Rightarrow> store \<Rightarrow> string \<Rightarrow> PartialLoanApplication
     \<Rightarrow> error + (store \<times> LoanApplication)" where
  "updateLoanApplication reply now db ident updates =
     (case db_update (application_values_empty (updates\<lparr>pla_updatedAt := Some now\<rparr>)) reply
             (set_application (updates\<lparr>pla_updatedAt := Some now\<rparr>))
             (\<lambda>a. la_id a = ident) (loanApplications db) of
        Inl e \<Rightarrow> Inl e
      | Inr (tbl, result) \<Rightarrow>
          (case result of
             [] \<Rightarrow> Inl (NotFound ''Application not found'')
           | r # _ \<Rightarrow> Inr (db\<lparr>loanApplications := tbl\<rparr>, r)))"

definition updateDsaPartner ::
  "engine_reply \<Rightarrow> timestamp \<Rightarrow> store \<Rightarrow> string \<Rightarrow> PartialDsaPartner
     \<Rightarrow> error + (store \<times> DsaPartner)" where
  "updateDsaPartner reply now db ident updates =
     (case db_update (partner_values_empty (updates\<lparr>pdp_updatedAt := Some now\<rparr>)) reply
             (set_partner (updates\<lparr>pdp_updatedAt := Some now\<rparr>))
             (\<lambda>d. dp_id d = ident) (dsaPartners db) of
        Inl e \<Rightarrow> Inl e
      | Inr (tbl, result) \<Rightarrow>
          (case result of
             [] \<Rightarrow> Inl (NotFound ''DSA partner not found'')
           | r # _ \<Rightarrow> Inr (db\<lparr>dsaPartners := tbl\<rparr>, r)))"

subsection \<open>Lead operations\<close>

definition createLead ::
  "engine_reply \<Rightarrow> string \<Rightarrow> timestamp \<Rightarrow> store \<Rightarrow> InsertLead \<Rightarrow> error + (store \<times> Lead option)" where
  "createLead reply new_id db_now db lead =
     (case db_insert reply
             \<lparr>ld_id = new_id,
              ld_payload = il_payload lead,
              ld_source = js_or (il_source lead) ''website'',
              ld_status = ''new'',
              ld_assignedDsaId = None,
              ld_assignedAt = None,
              ld_createdAt = db_now,
              ld_updatedAt = db_now\<rparr>
             (leads db) of
        Inl e \<Rightarrow> Inl e
      | Inr (tbl, result) \<Rightarrow> Inr (db\<lparr>leads := tbl\<rparr>, first_row result))"

text \<open>
  \<open>assignLeadToDsa\<close> evaluates \<open>new Date()\<close> twice, once for each timestamp, inside the
  one \<open>set\<close>.
\<close>

definition assignLeadToDsa ::
  "engine_reply \<Rightarrow> timestamp \<Rightarrow> timestamp \<Rightarrow> store \<Rightarrow> string \<Rightarrow> string \<Rightarrow> error + (store \<times> Lead)" where
  "assignLeadToDsa reply now1 now2 db leadId dsaId =
     (case db_update
             (lead_values_empty (no_lead_updates\<lparr>pld_assignedDsaId := Some (Some dsaId),
                                                 pld_assignedAt := Some (Some now1),
                                                 pld_updatedAt := Some now2\<rparr>))
             reply
             (set_lead (no_lead_updates\<lparr>pld_assignedDsaId := Some (Some dsaId),
                                        pld_assignedAt := Some (Some now1),
                                        pld_updatedAt := Some now2\<rparr>))
             (\<lambda>l. ld_id l = leadId) (leads db) of
        Inl e \<Rightarrow> Inl e
      | Inr (tbl, result) \<Rightarrow>
          (case result of
             [] \<Rightarrow> Inl (NotFound ''Lead not found'')
           | r # _ \<Rightarrow> Inr (db\<lparr>leads := tbl\<rparr>, r)))"

definition updateLead ::
  "engine_reply \<Rightarrow> timestamp \<Rightarrow> store \<Rightarrow> string \<Rightarrow> PartialLead \<Rightarrow> error + (store \<times> Lead)" where
  "updateLead reply now db ident updates =
     (case db_update (lead_values_empty (updates\<lparr>pld_updatedAt := Some now\<rparr>)) reply
             (set_lead (updates\<lparr>pld_updatedAt := Some now\<rparr>))
             (\<lambda>l. ld_id l = ident) (leads db) of
        Inl e \<Rightarrow> Inl e
      | Inr (tbl, result) \<Rightarrow>
          (case result of
             [] \<Rightarrow> Inl (NotFound ''Lead not found'')
           | r # _ \<Rightarrow> Inr (db\<lparr>leads := tbl\<rparr>, r)))"

subsection \<open>Contact query operations\<close>

definition updateContactQuery ::
  "engine_reply \<Rightarrow> store \<Rightarrow> string \<Rightarrow> PartialContactQuery \<Rightarrow> error + (store \<times> ContactQuery)" where
  "updateContactQuery reply db ident updates =
     (case db_update (query_values_empty updates) reply (set_query updates)
             (\<lambda>q. cq_id q = ident) (contactQueries db) of
        Inl e \<Rightarrow> Inl e
      | Inr (tbl, result) \<Rightarrow>
          (case result of
             [] \<Rightarrow> Inl (NotFound ''Contact query not found'')
           | r # _ \<Rightarrow> Inr (db\<lparr>contactQueries := tbl\<rparr>, r)))"

subsection \<open>Sample data\<close>

text \<open>
  A stand-in for the credential library, used where a statement is evaluated on concrete
  data: the hash is the salt, a separator and the reversed plaintext, and the comparison
  recomputes it from the part after the salt.
\<close>

definition demo_bcrypt :: bcrypt where
  "demo_bcrypt =
     \<lparr>bc_hash = (\<lambda>plaintext cost salt. salt @ ''$'' @ rev plaintext),
      bc_compare = (\<lambda>plaintext hashed.
         dropWhile (\<lambda>c. c \<noteq> CHR ''$'') hashed = ''$'' @ rev plaintext)\<rparr>"

definition alice :: User where
  "alice =
     \<lparr>u_id = ''u1'', u_username = ''alice'', u_email = ''alice@example.com'',
      u_password = ''ab$terces'', u_role = ''user'', u_fullName = ''Alice'',
      u_mobileNumber = ''100'', u_city = ''Pune'', u_isActive = True,
      u_createdAt = 1000, u_updatedAt = 1000\<rparr>"

definition new_bob :: InsertUser where
  "new_bob =
     \<lparr>iu_username = ''bob'', iu_email = ''bob@example.com'', iu_password = ''s3cret'',
      iu_role = None, iu_fullName = ''Bob'', iu_mobileNumber = ''200'', iu_city = ''Indore''\<rparr>"

definition application1 :: LoanApplication where
  "application1 =
     \<lparr>la_id = ''a1'', la_userId = ''u1'', la_assignedDsaId = None, la_status = ''pending'',
      la_payload = ''home loan'', la_createdAt = 1000, la_updatedAt = 1000\<rparr>"

definition partner1 :: DsaPartner where
  "partner1 =
     \<lparr>dp_id = ''d1'', dp_userId = ''u1'', dp_kycStatus = ''pending'', dp_payload = ''agency'',
      dp_createdAt = 1000, dp_updatedAt = 1000\<rparr>"

definition lead1 :: Lead where
  "lead1 =
     \<lparr>ld_id = ''l1'', ld_payload = ''caller'', ld_source = ''website'', ld_status = ''new'',
      ld_assignedDsaId = None, ld_assignedAt = None, ld_createdAt = 1000,
      ld_updatedAt = 1000\<rparr>"

definition query1 :: ContactQuery where
  "query1 = \<lparr>cq_id = ''q1'', cq_payload = ''hello'', cq_status = ''new'', cq_updatedAt = 1000\<rparr>"

definition demo_store :: store where
  "demo_store =
     \<lparr>users = [alice], loanApplications = [application1], dsaPartners = [partner1],
      leads = [lead1], contactQueries = [query1]\<rparr>"

definition boot_ok :: boot_env where
  "boot_ok = \<lparr>be_select = Completes, be_insert = Completes, be_salt = ''ab'',
     be_new_id = ''u0'', be_now = 500\<rparr>"

definition boot_down :: boot_env where
  "boot_down = \<lparr>be_select = Completes, be_insert = Fails, be_salt = ''ab'',
     be_new_id = ''u0'', be_now = 500\<rparr>"

section \<open>Properties\<close>

subsection \<open>The engine's update and select\<close>

lemma first_row_filter: "first_row (filter wh tbl) = find wh tbl"
  by (induction tbl) (auto simp: first_row_def)

lemma first_row_take1: "first_row (take (Suc 0) rs) = first_row rs"
  by (cases rs) (auto simp: first_row_def)

lemma returned_rows_cases:
  "(case map sv (filter wh tbl) of [] \<Rightarrow> A | r # _ \<Rightarrow> B r) =
   (case find wh tbl of None \<Rightarrow> A | Some r \<Rightarrow> B (sv r))"
  by (induction tbl) auto

lemma find_None_iff_all: "(find wh tbl = None) = (\<forall>r\<in>set tbl. \<not> wh r)"
  by (induction tbl) auto


lemma find_append_new: "\<forall>r\<in>set tbl. \<not> wh r \<Longrightarrow> wh row \<Longrightarrow> find wh (tbl @ [row]) = Some row"
  by (induction tbl) auto

lemma updated_row_stored:
  "find wh tbl = Some r \<Longrightarrow> sv r \<in> set (map (\<lambda>x. if wh x then sv x else x) tbl)"
  by (induction tbl) (auto split: if_splits)

lemma updateUser_completes:
  "updateUser Completes now db ident updates =
     (case find (\<lambda>u. u_id u = ident) (users db) of
        None \<Rightarrow> Inl (NotFound ''User not found'')
      | Some u \<Rightarrow>
          Inr (db\<lparr>users := map (\<lambda>r. if u_id r = ident
                                     then set_user (updates\<lparr>pu_updatedAt := Some now\<rparr>) r
                                     else r) (users db)\<rparr>,
               set_user (updates\<lparr>pu_updatedAt := Some now\<rparr>) u))"
  by (simp add: updateUser_def db_update_def user_values_empty_def returned_rows_cases)

lemma updateLoanApplication_completes:
  "updateLoanApplication Completes now db ident updates =
     (case find (\<lambda>a. la_id a = ident) (loanApplications db) of
        None \<Rightarrow> Inl (NotFound ''Application not found'')
      | Some a \<Rightarrow>
          Inr (db\<lparr>loanApplications := map (\<lambda>r. if la_id r = ident
                                     then set_application (updates\<lparr>pla_updatedAt := Some now\<rparr>) r
                                     else r) (loanApplications db)\<rparr>,
               set_application (updates\<lparr>pla_updatedAt := Some now\<rparr>) a))"
  by (simp add: updateLoanApplication_def db_update_def application_values_empty_def
      returned_rows_cases)

lemma updateDsaPartner_completes:
  "updateDsaPartner Completes now db ident updates =
     (case find (\<lambda>d. dp_id d = ident) (dsaPartners db) of
        None \<Rightarrow> Inl (NotFound ''DSA partner not found'')
      | Some d \<Rightarrow>
          Inr (db\<lparr>dsaPartners := map (\<lambda>r. if dp_id r = ident
                                     then set_partner (updates\<lparr>pdp_updatedAt := Some now\<rparr>) r
                                     else r) (dsaPartners db)\<rparr>,
               set_partner (updates\<lparr>pdp_updatedAt := Some now\<rparr>) d))"
  by (simp add: updateDsaPartner_def db_update_def partner_values_empty_def returned_rows_cases)

lemma updateLead_completes:
  "updateLead Completes now db ident updates =
     (case find (\<lambda>l. ld_id l = ident) (leads db) of
        None \<Rightarrow> Inl (NotFound ''Lead not found'')
      | Some l \<Rightarrow>
          Inr (db\<lparr>leads := map (\<lambda>r. if ld_id r = ident
                                     then set_lead (updates\<lparr>pld_updatedAt := Some now\<rparr>) r
                                     else r) (leads db)\<rparr>,
               set_lead (updates\<lparr>pld_updatedAt := Some now\<rparr>) l))"
  by (simp add: updateLead_def db_update_def lead_values_empty_def returned_rows_cases)

lemma assigned_values:
  "set_lead (no_lead_updates\<lparr>pld_assignedDsaId := Some (Some dsaId),
                              pld_assignedAt := Some (Some now1),
                              pld_updatedAt := Some now2\<rparr>) l =
   l\<lparr>ld_assignedDsaId := Some dsaId, ld_assignedAt := Some now1, ld_updatedAt := now2\<rparr>"
  by (simp add: set_lead_def no_lead_updates_def set_col_def)

lemma assignLeadToDsa_completes:
  "assignLeadToDsa Completes now1 now2 db leadId dsaId =
     (case find (\<lambda>l. ld_id l = leadId) (leads db) of
        None \<Rightarrow> Inl (NotFound ''Lead not found'')
      | Some l \<Rightarrow>
          Inr (db\<lparr>leads := map (\<lambda>r. if ld_id r = leadId
                    then r\<lparr>ld_assignedDsaId := Some dsaId, ld_assignedAt := Some now1,
                           ld_updatedAt := now2\<rparr>
                    else r) (leads db)\<rparr>,
               l\<lparr>ld_assignedDsaId := Some dsaId, ld_assignedAt := Some now1,
                 ld_updatedAt := now2\<rparr>))"
  unfolding assignLeadToDsa_def assigned_values
  by (simp add: db_update_def lead_values_empty_def returned_rows_cases)


text \<open>
  \<open>updateContactQuery\<close> gives \<open>set\<close> the partial record as it is, so the empty record
  is refused before the engine is asked, whether or not a row has the identifier.
\<close>

lemma updateContactQuery_no_values:
  "query_values_empty updates \<Longrightarrow> updateContactQuery reply db ident updates = Inl NoValuesToSet"
  by (simp add: updateContactQuery_def db_update_def)

lemma getUserByUsername_completes:
  "getUserByUsername Completes db n = Inr (find (\<lambda>u. u_username u = n) (users db))"
  by (simp add: getUserByUsername_def db_select_def first_row_take1 first_row_filter)

lemma getUser_completes:
  "getUser Completes db i = Inr (find (\<lambda>u. u_id u = i) (users db))"
  by (simp add: getUser_def db_select_def first_row_take1 first_row_filter)

lemma authenticateUser_completes:
  "authenticateUser B Completes db n p =
     (case find (\<lambda>u. u_username u = n) (users db) of
        None \<Rightarrow> Inr None
      | Some u \<Rightarrow> if bc_compare B p (u_password u) then Inr (Some u) else Inr None)"
  by (simp add: authenticateUser_def getUserByUsername_completes split: option.splits)

lemma createUser_completes:
  "createUser B Completes salt new_id db_now db input =
     Inr (db\<lparr>users := users db @
              [\<lparr>u_id = new_id, u_username = iu_username input, u_email = iu_email input,
                u_password = bc_hash B (iu_password input) 10 salt,
                u_role = js_or (iu_role input) ''user'', u_fullName = iu_fullName input,
                u_mobileNumber = iu_mobileNumber input, u_city = iu_city input,
                u_isActive = True, u_createdAt = db_now, u_updatedAt = db_now\<rparr>]\<rparr>,
          Some \<lparr>u_id = new_id, u_username = iu_username input, u_email = iu_email input,
                u_password = bc_hash B (iu_password input) 10 salt,
                u_role = js_or (iu_role input) ''user'', u_fullName = iu_fullName input,
                u_mobileNumber = iu_mobileNumber input, u_city = iu_city input,
                u_isActive = True, u_createdAt = db_now, u_updatedAt = db_now\<rparr>)"
  by (simp add: createUser_def db_insert_def first_row_def Let_def)

text \<open>
  When the engine does not carry the call out, the persistence failure is what the
  operation returns (after the refusal of an empty values record, which comes first);
  NotFound is raised only after an update that matched no row.
\<close>

lemma engine_failure_propagates:
  "updateUser Fails now db ident pu = Inl PersistenceFailure"
  "updateLoanApplication Fails now db ident pa = Inl PersistenceFailure"
  "updateDsaPartner Fails now db ident pd = Inl PersistenceFailure"
  "updateLead Fails now db ident pl = Inl PersistenceFailure"
  "updateContactQuery Fails db ident pq =
     (if query_values_empty pq then Inl NoValuesToSet else Inl PersistenceFailure)"
  "assignLeadToDsa Fails assigned updated db ident dsaId = Inl PersistenceFailure"
  "createUser B Fails salt new_id db_now db insertUser = Inl PersistenceFailure"
  "createLead Fails new_id db_now db lead = Inl PersistenceFailure"
  "authenticateUser B Fails db username password = Inl PersistenceFailure"
  by (simp_all add: updateUser_def updateLoanApplication_def updateDsaPartner_def updateLead_def
      updateContactQuery_def assignLeadToDsa_def createUser_def createLead_def
      authenticateUser_def getUserByUsername_def db_update_def db_insert_def db_select_def
      user_values_empty_def application_values_empty_def partner_values_empty_def
      lead_values_empty_def no_lead_updates_def)

lemma rows_after_update:
  "r \<in> set (map (\<lambda>x. if wh x then sv x else x) tbl) \<Longrightarrow>
     (\<exists>x\<in>set tbl. wh x \<and> r = sv x) \<or> (r \<in> set tbl \<and> \<not> wh r)"
  by (induction tbl) (auto split: if_splits)

subsection \<open>Credentials\<close>

text \<open>
  Claim C1 (stored credentials are hashes; no operation stores a plaintext). \<open>createUser\<close>
  stores \<open>bcrypt.hash\<close> of the supplied plaintext, but \<open>updateUser\<close> passes a \<open>password\<close>
  property of its partial record to \<open>set\<close> as it is. For every credential library and salt:
  after creating bob, whose stored credential is the hash of his plaintext, an update
  whose partial record carries the password \<open>hunter2\<close> leaves exactly the string
  \<open>hunter2\<close> in the returned entity and in the table.
\<close>

theorem updateUser_stores_plaintext_password:
  "\<exists>db1 bob db2 bob'.
     createUser B Completes salt ''u2'' 1500 demo_store new_bob = Inr (db1, Some bob) \<and>
     u_password bob = bc_hash B ''s3cret'' 10 salt \<and>
     updateUser Completes 2000 db1 ''u2'' (no_user_updates\<lparr>pu_password := Some ''hunter2''\<rparr>)
       = Inr (db2, bob') \<and>
     u_password bob' = ''hunter2'' \<and>
     map u_password (users db2) = [u_password alice, ''hunter2'']"
  by (simp add: createUser_completes updateUser_completes demo_store_def new_bob_def alice_def
      no_user_updates_def set_user_def set_col_def)

text \<open>
  Claim C2 (create, then authenticate). Let the username of the creation input be unused
  in the store, and let the credential library verify the plaintext against the hash it
  has just made of it. Then \<open>createUser\<close> returns a user, \<open>authenticateUser\<close> with that
  username and the same plaintext returns this user, and with any plaintext that does not
  verify against the stored hash it returns the negative result \<open>null\<close>, not an error.
\<close>

theorem createUser_then_authenticateUser:
  assumes fresh: "\<forall>u\<in>set (users db). u_username u \<noteq> iu_username input"
    and verifies: "bc_compare B (iu_password input) (bc_hash B (iu_password input) 10 salt)"
  shows "\<exists>db' user.
     createUser B Completes salt new_id db_now db input = Inr (db', Some user) \<and>
     u_username user = iu_username input \<and>
     authenticateUser B Completes db' (u_username user) (iu_password input) = Inr (Some user) \<and>
     (\<forall>p'. \<not> bc_compare B p' (u_password user) \<longrightarrow>
        authenticateUser B Completes db' (u_username user) p' = Inr None)"
  using assms
  by (simp add: createUser_completes authenticateUser_completes find_append_new)

theorem createUser_then_authenticateUser_witness:
  "\<exists>db' user.
     createUser demo_bcrypt Completes ''xy'' ''u2'' 1500 demo_store new_bob = Inr (db', Some user) \<and>
     u_username user = ''bob'' \<and> u_password user = ''xy$terc3s'' \<and>
     authenticateUser demo_bcrypt Completes db' ''bob'' ''s3cret'' = Inr (Some user) \<and>
     authenticateUser demo_bcrypt Completes db' ''bob'' ''guess'' = Inr None"
  using createUser_then_authenticateUser
    [of demo_store new_bob demo_bcrypt "''xy''" "''u2''" 1500]
  by (simp add: createUser_completes authenticateUser_completes demo_bcrypt_def
      demo_store_def new_bob_def alice_def)

text \<open>
  Claim C3 (the two failures of authentication look alike). A username that matches no
  stored user and an existing username with a plaintext that does not verify both give
  the same value, the negative result \<open>null\<close>; the user entity is returned exactly when
  the user is found and the plaintext verifies against the stored credential.
\<close>

theorem authenticateUser_failures_indistinguishable:
  "((\<forall>u\<in>set (users db). u_username u \<noteq> unknown) \<longrightarrow>
    find (\<lambda>u. u_username u = known) (users db) = Some user \<longrightarrow>
    \<not> bc_compare B wrong (u_password user) \<longrightarrow>
      authenticateUser B Completes db unknown anything = Inr None \<and>
      authenticateUser B Completes db known wrong = Inr None) \<and>
   ((authenticateUser B Completes db n p = Inr (Some u)) =
      (find (\<lambda>u. u_username u = n) (users db) = Some u \<and> bc_compare B p (u_password u)))"
proof (intro conjI impI)
  assume "\<forall>u\<in>set (users db). u_username u \<noteq> unknown"
  then have "find (\<lambda>u. u_username u = unknown) (users db) = None"
    by (simp add: find_None_iff_all)
  then show "authenticateUser B Completes db unknown anything = Inr None"
    by (simp add: authenticateUser_completes)
next
  assume "find (\<lambda>u. u_username u = known) (users db) = Some user"
    and "\<not> bc_compare B wrong (u_password user)"
  then show "authenticateUser B Completes db known wrong = Inr None"
    by (simp add: authenticateUser_completes)
next
  show "(authenticateUser B Completes db n p = Inr (Some u)) =
      (find (\<lambda>u. u_username u = n) (users db) = Some u \<and> bc_compare B p (u_password u))"
    by (auto simp: authenticateUser_completes split: option.splits)
qed

theorem authenticateUser_failures_indistinguishable_witness:
  "authenticateUser demo_bcrypt Completes demo_store ''mallory'' ''secret'' = Inr None \<and>
   authenticateUser demo_bcrypt Completes demo_store ''alice'' ''guess'' = Inr None \<and>
   authenticateUser demo_bcrypt Completes demo_store ''alice'' ''secret'' = Inr (Some alice)"
  using authenticateUser_failures_indistinguishable
    [of demo_store "''mallory''" "''alice''" alice demo_bcrypt "''guess''" "''secret''"
        "''alice''" "''secret''" alice]
  by (simp add: demo_store_def alice_def demo_bcrypt_def)

subsection \<open>Lead assignment\<close>

text \<open>
  Claim C4 (assignment is one mutation). For a \<open>leadId\<close> that matches no lead,
  \<open>assignLeadToDsa\<close> raises NotFound. For an existing lead it returns the lead with the
  partner reference \<open>dsaId\<close>, a non-null assignment timestamp and the refreshed update
  timestamp; the store after the call comes from the one update of the lead table, in it
  every lead with this identifier has the reference and the assignment timestamp set
  together, and the other tables are as before.
\<close>

theorem assignLeadToDsa_sets_both:
  "((\<forall>l\<in>set (leads db). ld_id l \<noteq> leadId) \<longrightarrow>
      assignLeadToDsa Completes now1 now2 db leadId dsaId = Inl (NotFound ''Lead not found'')) \<and>
   (find (\<lambda>l. ld_id l = leadId) (leads db) = Some lead \<longrightarrow>
      (\<exists>db'. assignLeadToDsa Completes now1 now2 db leadId dsaId =
           Inr (db', lead\<lparr>ld_assignedDsaId := Some dsaId, ld_assignedAt := Some now1,
                          ld_updatedAt := now2\<rparr>) \<and>
         leads db' = map (\<lambda>r. if ld_id r = leadId
                             then r\<lparr>ld_assignedDsaId := Some dsaId, ld_assignedAt := Some now1,
                                    ld_updatedAt := now2\<rparr>
                             else r) (leads db) \<and>
         (\<forall>r\<in>set (leads db'). ld_id r = leadId \<longrightarrow>
            ld_assignedDsaId r = Some dsaId \<and> ld_assignedAt r = Some now1 \<and>
            ld_updatedAt r = now2) \<and>
         users db' = users db \<and> loanApplications db' = loanApplications db \<and>
         dsaPartners db' = dsaPartners db \<and> contactQueries db' = contactQueries db))"
proof (intro conjI impI)
  assume "\<forall>l\<in>set (leads db). ld_id l \<noteq> leadId"
  then have "find (\<lambda>l. ld_id l = leadId) (leads db) = None"
    by (simp add: find_None_iff_all)
  then show "assignLeadToDsa Completes now1 now2 db leadId dsaId = Inl (NotFound ''Lead not found'')"
    by (simp add: assignLeadToDsa_completes)
next
  assume "find (\<lambda>l. ld_id l = leadId) (leads db) = Some lead"
  then show "\<exists>db'. assignLeadToDsa Completes now1 now2 db leadId dsaId =
           Inr (db', lead\<lparr>ld_assignedDsaId := Some dsaId, ld_assignedAt := Some now1,
                          ld_updatedAt := now2\<rparr>) \<and>
         leads db' = map (\<lambda>r. if ld_id r = leadId
                             then r\<lparr>ld_assignedDsaId := Some dsaId, ld_assignedAt := Some now1,
                                    ld_updatedAt := now2\<rparr>
                             else r) (leads db) \<and>
         (\<forall>r\<in>set (leads db'). ld_id r = leadId \<longrightarrow>
            ld_assignedDsaId r = Some dsaId \<and> ld_assignedAt r = Some now1 \<and>
            ld_updatedAt r = now2) \<and>
         users db' = users db \<and> loanApplications db' = loanApplications db \<and>
         dsaPartners db' = dsaPartners db \<and> contactQueries db' = contactQueries db"
  proof (intro exI [of _ "db\<lparr>leads := map (\<lambda>r. if ld_id r = leadId
                             then r\<lparr>ld_assignedDsaId := Some dsaId, ld_assignedAt := Some now1,
                                    ld_updatedAt := now2\<rparr>
                             else r) (leads db)\<rparr>"] conjI)
    assume found: "find (\<lambda>l. ld_id l = leadId) (leads db) = Some lead"
    show "assignLeadToDsa Completes now1 now2 db leadId dsaId =
       Inr (db\<lparr>leads := map (\<lambda>r. if ld_id r = leadId
                             then r\<lparr>ld_assignedDsaId := Some dsaId, ld_assignedAt := Some now1,
                                    ld_updatedAt := now2\<rparr>
                             else r) (leads db)\<rparr>,
            lead\<lparr>ld_assignedDsaId := Some dsaId, ld_assignedAt := Some now1,
                          ld_updatedAt := now2\<rparr>)"
      using found by (simp add: assignLeadToDsa_completes)
  next
    show "\<forall>r\<in>set (leads (db\<lparr>leads := map (\<lambda>r. if ld_id r = leadId
                             then r\<lparr>ld_assignedDsaId := Some dsaId, ld_assignedAt := Some now1,
                                    ld_updatedAt := now2\<rparr>
                             else r) (leads db)\<rparr>)). ld_id r = leadId \<longrightarrow>
            ld_assignedDsaId r = Some dsaId \<and> ld_assignedAt r = Some now1 \<and>
            ld_updatedAt r = now2"
    proof (intro ballI impI)
      fix r
      assume "r \<in> set (leads (db\<lparr>leads := map (\<lambda>r. if ld_id r = leadId
                             then r\<lparr>ld_assignedDsaId := Some dsaId, ld_assignedAt := Some now1,
                                    ld_updatedAt := now2\<rparr>
                             else r) (leads db)\<rparr>))"
        and "ld_id r = leadId"
      then have mem: "r \<in> set (map (\<lambda>r. if ld_id r = leadId
                             then r\<lparr>ld_assignedDsaId := Some dsaId, ld_assignedAt := Some now1,
                                    ld_updatedAt := now2\<rparr>
                             else r) (leads db))"
        and same: "ld_id r = leadId"
        by simp_all
      from rows_after_update [OF mem] same
      obtain x where "r = x\<lparr>ld_assignedDsaId := Some dsaId, ld_assignedAt := Some now1,
                                    ld_updatedAt := now2\<rparr>"
        by blast
      then show "ld_assignedDsaId r = Some dsaId \<and> ld_assignedAt r = Some now1 \<and>
            ld_updatedAt r = now2"
        by simp
    qed
  qed simp_all
qed

theorem assignLeadToDsa_sets_both_witness:
  "assignLeadToDsa Completes 2000 2001 demo_store ''l1'' ''partner-42'' =
     Inr (demo_store\<lparr>leads := [lead1\<lparr>ld_assignedDsaId := Some ''partner-42'',
                                      ld_assignedAt := Some 2000, ld_updatedAt := 2001\<rparr>]\<rparr>,
          lead1\<lparr>ld_assignedDsaId := Some ''partner-42'', ld_assignedAt := Some 2000,
                ld_updatedAt := 2001\<rparr>) \<and>
   assignLeadToDsa Completes 2000 2001 demo_store ''l7'' ''partner-42'' =
     Inl (NotFound ''Lead not found'')"
  using assignLeadToDsa_sets_both [of demo_store "''l1''" 2000 2001 "''partner-42''" lead1]
    assignLeadToDsa_sets_both [of demo_store "''l7''" 2000 2001 "''partner-42''" lead1]
  by (simp add: assignLeadToDsa_completes demo_store_def lead1_def)

subsection \<open>NotFound on a missing target\<close>
















subsection \<open>Partial updates\<close>

text \<open>
  Claim C6 as stated (only the supplied fields and the update timestamp change, and the
  update timestamp of the result is strictly later than the previous one) fails in its
  last part: the timestamp written is the reading of the clock at the call, and a user
  whose update timestamp is 1000 and who is updated at the clock reading 1000 keeps the
  update timestamp 1000.
\<close>

theorem update_timestamp_not_strictly_later:
  "users demo_store = [alice] \<and> u_id alice = ''u1'' \<and> u_updatedAt alice = 1000 \<and>
   updateUser Completes 1000 demo_store ''u1'' (no_user_updates\<lparr>pu_city := Some ''Bhopal''\<rparr>) =
     Inr (demo_store\<lparr>users := [alice\<lparr>u_city := ''Bhopal''\<rparr>]\<rparr>, alice\<lparr>u_city := ''Bhopal''\<rparr>) \<and>
   \<not> u_updatedAt alice < u_updatedAt (alice\<lparr>u_city := ''Bhopal''\<rparr>)"
  by (simp add: updateUser_completes demo_store_def alice_def no_user_updates_def
      set_user_def set_col_def)

text \<open>
  Claim C6, amended. For an existing entity (the first row with the identifier) and every
  partial record, \<open>updateUser\<close>, \<open>updateLoanApplication\<close>, \<open>updateDsaPartner\<close> and
  \<open>updateLead\<close> return an entity in which every field that the partial record does not
  supply has its prior value; its update timestamp is the clock reading of the call, so it
  is strictly later than the previous update timestamp exactly when that reading is. The
  rows with another identifier and the other tables are as before.
\<close>

theorem partial_update_frame:
  "(find (\<lambda>u. u_id u = uid) (users db) = Some u \<longrightarrow>
      (\<exists>db' u'. updateUser Completes now db uid pu = Inr (db', u') \<and>
          (pu_id pu = None \<longrightarrow> u_id u' = u_id u) \<and>
          (pu_username pu = None \<longrightarrow> u_username u' = u_username u) \<and>
          (pu_email pu = None \<longrightarrow> u_email u' = u_email u) \<and>
          (pu_password pu = None \<longrightarrow> u_password u' = u_password u) \<and>
          (pu_role pu = None \<longrightarrow> u_role u' = u_role u) \<and>
          (pu_fullName pu = None \<longrightarrow> u_fullName u' = u_fullName u) \<and>
          (pu_mobileNumber pu = None \<longrightarrow> u_mobileNumber u' = u_mobileNumber u) \<and>
          (pu_city pu = None \<longrightarrow> u_city u' = u_city u) \<and>
          (pu_isActive pu = None \<longrightarrow> u_isActive u' = u_isActive u) \<and>
          (pu_createdAt pu = None \<longrightarrow> u_createdAt u' = u_createdAt u) \<and>
          u_updatedAt u' = now \<and>
          (u_updatedAt u < u_updatedAt u') = (u_updatedAt u < now) \<and>
          users db' = map (\<lambda>r. if u_id r = uid
                                then set_user (pu\<lparr>pu_updatedAt := Some now\<rparr>) r else r) (users db) \<and>
          loanApplications db' = loanApplications db \<and> dsaPartners db' = dsaPartners db \<and>
          leads db' = leads db \<and> contactQueries db' = contactQueries db)) \<and>
   (find (\<lambda>a. la_id a = aid) (loanApplications db) = Some a \<longrightarrow>
      (\<exists>db' a'. updateLoanApplication Completes now db aid pa = Inr (db', a') \<and>
          (pla_id pa = None \<longrightarrow> la_id a' = la_id a) \<and>
          (pla_userId pa = None \<longrightarrow> la_userId a' = la_userId a) \<and>
          (pla_assignedDsaId pa = None \<longrightarrow> la_assignedDsaId a' = la_assignedDsaId a) \<and>
          (pla_status pa = None \<longrightarrow> la_status a' = la_status a) \<and>
          (pla_payload pa = None \<longrightarrow> la_payload a' = la_payload a) \<and>
          (pla_createdAt pa = None \<longrightarrow> la_createdAt a' = la_createdAt a) \<and>
          la_updatedAt a' = now \<and>
          (la_updatedAt a < la_updatedAt a') = (la_updatedAt a < now) \<and>
          loanApplications db' = map (\<lambda>r. if la_id r = aid
              then set_application (pa\<lparr>pla_updatedAt := Some now\<rparr>) r else r) (loanApplications db) \<and>
          users db' = users db \<and> dsaPartners db' = dsaPartners db \<and>
          leads db' = leads db \<and> contactQueries db' = contactQueries db)) \<and>
   (find (\<lambda>d. dp_id d = did) (dsaPartners db) = Some d \<longrightarrow>
      (\<exists>db' d'. updateDsaPartner Completes now db did pd = Inr (db', d') \<and>
          (pdp_id pd = None \<longrightarrow> dp_id d' = dp_id d) \<and>
          (pdp_userId pd = None \<longrightarrow> dp_userId d' = dp_userId d) \<and>
          (pdp_kycStatus pd = None \<longrightarrow> dp_kycStatus d' = dp_kycStatus d) \<and>
          (pdp_payload pd = None \<longrightarrow> dp_payload d' = dp_payload d) \<and>
          (pdp_createdAt pd = None \<longrightarrow> dp_createdAt d' = dp_createdAt d) \<and>
          dp_updatedAt d' = now \<and>
          (dp_updatedAt d < dp_updatedAt d') = (dp_updatedAt d < now) \<and>
          dsaPartners db' = map (\<lambda>r. if dp_id r = did
              then set_partner (pd\<lparr>pdp_updatedAt := Some now\<rparr>) r else r) (dsaPartners db) \<and>
          users db' = users db \<and> loanApplications db' = loanApplications db \<and>
          leads db' = leads db \<and> contactQueries db' = contactQueries db)) \<and>
   (find (\<lambda>l. ld_id l = lid) (leads db) = Some l \<longrightarrow>
      (\<exists>db' l'. updateLead Completes now db lid pl = Inr (db', l') \<and>
          (pld_id pl = None \<longrightarrow> ld_id l' = ld_id l) \<and>
          (pld_payload pl = None \<longrightarrow> ld_payload l' = ld_payload l) \<and>
          (pld_source pl = None \<longrightarrow> ld_source l' = ld_source l) \<and>
          (pld_status pl = None \<longrightarrow> ld_status l' = ld_status l) \<and>
          (pld_assignedDsaId pl = None \<longrightarrow> ld_assignedDsaId l' = ld_assignedDsaId l) \<and>
          (pld_assignedAt pl = None \<longrightarrow> ld_assignedAt l' = ld_assignedAt l) \<and>
          (pld_createdAt pl = None \<longrightarrow> ld_createdAt l' = ld_createdAt l) \<and>
          ld_updatedAt l' = now \<and>
          (ld_updatedAt l < ld_updatedAt l') = (ld_updatedAt l < now) \<and>
          leads db' = map (\<lambda>r. if ld_id r = lid
              then set_lead (pl\<lparr>pld_updatedAt := Some now\<rparr>) r else r) (leads db) \<and>
          users db' = users db \<and> loanApplications db' = loanApplications db \<and>
          dsaPartners db' = dsaPartners db \<and> contactQueries db' = contactQueries db))"
  apply (intro conjI impI)
  subgoal by (simp add: updateUser_completes set_user_def set_col_def)
  subgoal by (simp add: updateLoanApplication_completes set_application_def set_col_def)
  subgoal by (simp add: updateDsaPartner_completes set_partner_def set_col_def)
  subgoal by (simp add: updateLead_completes set_lead_def set_col_def)
  done

theorem partial_update_frame_witness:
  "(\<exists>db' u'. updateUser Completes 2000 demo_store ''u1'' (no_user_updates\<lparr>pu_city := Some ''Bhopal''\<rparr>)
       = Inr (db', u') \<and>
     u_city u' = ''Bhopal'' \<and> u_username u' = ''alice'' \<and> u_password u' = u_password alice \<and>
     u_createdAt u' = 1000 \<and> u_updatedAt u' = 2000 \<and> u_updatedAt alice < u_updatedAt u' \<and>
     leads db' = [lead1]) \<and>
   (\<exists>db' a'. updateLoanApplication Completes 2000 demo_store ''a1''
        (no_application_updates\<lparr>pla_status := Some ''approved''\<rparr>) = Inr (db', a') \<and>
     la_status a' = ''approved'' \<and> la_userId a' = ''u1'' \<and> la_updatedAt a' = 2000) \<and>
   (\<exists>db' d'. updateDsaPartner Completes 2000 demo_store ''d1''
        (no_partner_updates\<lparr>pdp_kycStatus := Some ''verified''\<rparr>) = Inr (db', d') \<and>
     dp_kycStatus d' = ''verified'' \<and> dp_payload d' = ''agency'' \<and> dp_updatedAt d' = 2000) \<and>
   (\<exists>db' l'. updateLead Completes 2000 demo_store ''l1''
        (no_lead_updates\<lparr>pld_status := Some ''contacted''\<rparr>) = Inr (db', l') \<and>
     ld_status l' = ''contacted'' \<and> ld_source l' = ''website'' \<and> ld_updatedAt l' = 2000)"
  using partial_update_frame
    [where uid = "''u1''" and db = demo_store and u = alice and now = 2000
       and pu = "no_user_updates\<lparr>pu_city := Some ''Bhopal''\<rparr>"
       and aid = "''a1''" and a = application1
       and pa = "no_application_updates\<lparr>pla_status := Some ''approved''\<rparr>"
       and did = "''d1''" and d = partner1
       and pd = "no_partner_updates\<lparr>pdp_kycStatus := Some ''verified''\<rparr>"
       and lid = "''l1''" and l = lead1
       and pl = "no_lead_updates\<lparr>pld_status := Some ''contacted''\<rparr>"]
  by (simp add: updateUser_completes updateLoanApplication_completes updateDsaPartner_completes
      updateLead_completes demo_store_def alice_def application1_def partner1_def lead1_def
      no_user_updates_def no_application_updates_def no_partner_updates_def no_lead_updates_def
      set_user_def set_application_def set_partner_def set_lead_def set_col_def)




text \<open>
  Claim C10 (no protection of immutable fields). For an existing entity, a partial record
  that supplies the identifier or the creation timestamp has them written into the
  stored and returned entity by \<open>updateUser\<close>, \<open>updateLoanApplication\<close>,
  \<open>updateDsaPartner\<close> and \<open>updateLead\<close>, whereas an update timestamp supplied in the
  partial record is overridden by the clock reading of the call, because the refresh
  comes after the spread of the partial record.
\<close>

theorem partial_update_overwrites_identity:
  "(find (\<lambda>u. u_id u = uid) (users db) = Some u \<longrightarrow>
      (\<exists>db' u'. updateUser Completes now db uid pu = Inr (db', u') \<and> u' \<in> set (users db') \<and>
          (\<forall>j. pu_id pu = Some j \<longrightarrow> u_id u' = j) \<and>
          (\<forall>c. pu_createdAt pu = Some c \<longrightarrow> u_createdAt u' = c) \<and>
          (\<forall>t. pu_updatedAt pu = Some t \<longrightarrow> u_updatedAt u' = now))) \<and>
   (find (\<lambda>a. la_id a = aid) (loanApplications db) = Some a \<longrightarrow>
      (\<exists>db' a'. updateLoanApplication Completes now db aid pa = Inr (db', a') \<and>
          a' \<in> set (loanApplications db') \<and>
          (\<forall>j. pla_id pa = Some j \<longrightarrow> la_id a' = j) \<and>
          (\<forall>c. pla_createdAt pa = Some c \<longrightarrow> la_createdAt a' = c) \<and>
          (\<forall>t. pla_updatedAt pa = Some t \<longrightarrow> la_updatedAt a' = now))) \<and>
   (find (\<lambda>d. dp_id d = did) (dsaPartners db) = Some d \<longrightarrow>
      (\<exists>db' d'. updateDsaPartner Completes now db did pd = Inr (db', d') \<and>
          d' \<in> set (dsaPartners db') \<and>
          (\<forall>j. pdp_id pd = Some j \<longrightarrow> dp_id d' = j) \<and>
          (\<forall>c. pdp_createdAt pd = Some c \<longrightarrow> dp_createdAt d' = c) \<and>
          (\<forall>t. pdp_updatedAt pd = Some t \<longrightarrow> dp_updatedAt d' = now))) \<and>
   (find (\<lambda>l. ld_id l = lid) (leads db) = Some l \<longrightarrow>
      (\<exists>db' l'. updateLead Completes now db lid pl = Inr (db', l') \<and> l' \<in> set (leads db') \<and>
          (\<forall>j. pld_id pl = Some j \<longrightarrow> ld_id l' = j) \<and>
          (\<forall>c. pld_createdAt pl = Some c \<longrightarrow> ld_createdAt l' = c) \<and>
          (\<forall>t. pld_updatedAt pl = Some t \<longrightarrow> ld_updatedAt l' = now)))"
proof (intro conjI impI)
  assume found: "find (\<lambda>u. u_id u = uid) (users db) = Some u"
  from updated_row_stored [OF found, of "set_user (pu\<lparr>pu_updatedAt := Some now\<rparr>)"]
  have "set_user (pu\<lparr>pu_updatedAt := Some now\<rparr>) u \<in> set (users (db\<lparr>users :=
      map (\<lambda>r. if u_id r = uid then set_user (pu\<lparr>pu_updatedAt := Some now\<rparr>) r else r)
        (users db)\<rparr>))"
    by simp
  moreover have "u_id (set_user (pu\<lparr>pu_updatedAt := Some now\<rparr>) u) = set_col (pu_id pu) (u_id u)"
    "u_createdAt (set_user (pu\<lparr>pu_updatedAt := Some now\<rparr>) u) = set_col (pu_createdAt pu) (u_createdAt u)"
    "u_updatedAt (set_user (pu\<lparr>pu_updatedAt := Some now\<rparr>) u) = now"
    by (simp_all add: set_user_def set_col_def)
  ultimately show "\<exists>db' u'. updateUser Completes now db uid pu = Inr (db', u') \<and>
      u' \<in> set (users db') \<and>
      (\<forall>j. pu_id pu = Some j \<longrightarrow> u_id u' = j) \<and>
      (\<forall>c. pu_createdAt pu = Some c \<longrightarrow> u_createdAt u' = c) \<and>
      (\<forall>t. pu_updatedAt pu = Some t \<longrightarrow> u_updatedAt u' = now)"
    using found by (simp add: updateUser_completes set_col_def del: set_map)
next
  assume found: "find (\<lambda>a. la_id a = aid) (loanApplications db) = Some a"
  from updated_row_stored [OF found, of "set_application (pa\<lparr>pla_updatedAt := Some now\<rparr>)"]
  have "set_application (pa\<lparr>pla_updatedAt := Some now\<rparr>) a \<in> set (loanApplications
      (db\<lparr>loanApplications :=
      map (\<lambda>r. if la_id r = aid then set_application (pa\<lparr>pla_updatedAt := Some now\<rparr>) r else r)
        (loanApplications db)\<rparr>))"
    by simp
  moreover have
    "la_id (set_application (pa\<lparr>pla_updatedAt := Some now\<rparr>) a) = set_col (pla_id pa) (la_id a)"
    "la_createdAt (set_application (pa\<lparr>pla_updatedAt := Some now\<rparr>) a)
       = set_col (pla_createdAt pa) (la_createdAt a)"
    "la_updatedAt (set_application (pa\<lparr>pla_updatedAt := Some now\<rparr>) a) = now"
    by (simp_all add: set_application_def set_col_def)
  ultimately show "\<exists>db' a'. updateLoanApplication Completes now db aid pa = Inr (db', a') \<and>
      a' \<in> set (loanApplications db') \<and>
      (\<forall>j. pla_id pa = Some j \<longrightarrow> la_id a' = j) \<and>
      (\<forall>c. pla_createdAt pa = Some c \<longrightarrow> la_createdAt a' = c) \<and>
      (\<forall>t. pla_updatedAt pa = Some t \<longrightarrow> la_updatedAt a' = now)"
    using found by (simp add: updateLoanApplication_completes set_col_def del: set_map)
next
  assume found: "find (\<lambda>d. dp_id d = did) (dsaPartners db) = Some d"
  from updated_row_stored [OF found, of "set_partner (pd\<lparr>pdp_updatedAt := Some now\<rparr>)"]
  have "set_partner (pd\<lparr>pdp_updatedAt := Some now\<rparr>) d \<in> set (dsaPartners
      (db\<lparr>dsaPartners :=
      map (\<lambda>r. if dp_id r = did then set_partner (pd\<lparr>pdp_updatedAt := Some now\<rparr>) r else r)
        (dsaPartners db)\<rparr>))"
    by simp
  moreover have
    "dp_id (set_partner (pd\<lparr>pdp_updatedAt := Some now\<rparr>) d) = set_col (pdp_id pd) (dp_id d)"
    "dp_createdAt (set_partner (pd\<lparr>pdp_updatedAt := Some now\<rparr>) d)
       = set_col (pdp_createdAt pd) (dp_createdAt d)"
    "dp_updatedAt (set_partner (pd\<lparr>pdp_updatedAt := Some now\<rparr>) d) = now"
    by (simp_all add: set_partner_def set_col_def)
  ultimately show "\<exists>db' d'. updateDsaPartner Completes now db did pd = Inr (db', d') \<and>
      d' \<in> set (dsaPartners db') \<and>
      (\<forall>j. pdp_id pd = Some j \<longrightarrow> dp_id d' = j) \<and>
      (\<forall>c. pdp_createdAt pd = Some c \<longrightarrow> dp_createdAt d' = c) \<and>
      (\<forall>t. pdp_updatedAt pd = Some t \<longrightarrow> dp_updatedAt d' = now)"
    using found by (simp add: updateDsaPartner_completes set_col_def del: set_map)
next
  assume found: "find (\<lambda>l. ld_id l = lid) (leads db) = Some l"
  from updated_row_stored [OF found, of "set_lead (pl\<lparr>pld_updatedAt := Some now\<rparr>)"]
  have "set_lead (pl\<lparr>pld_updatedAt := Some now\<rparr>) l \<in> set (leads (db\<lparr>leads :=
      map (\<lambda>r. if ld_id r = lid then set_lead (pl\<lparr>pld_updatedAt := Some now\<rparr>) r else r)
        (leads db)\<rparr>))"
    by simp
  moreover have
    "ld_id (set_lead (pl\<lparr>pld_updatedAt := Some now\<rparr>) l) = set_col (pld_id pl) (ld_id l)"
    "ld_createdAt (set_lead (pl\<lparr>pld_updatedAt := Some now\<rparr>) l)
       = set_col (pld_createdAt pl) (ld_createdAt l)"
    "ld_updatedAt (set_lead (pl\<lparr>pld_updatedAt := Some now\<rparr>) l) = now"
    by (simp_all add: set_lead_def set_col_def)
  ultimately show "\<exists>db' l'. updateLead Completes now db lid pl = Inr (db', l') \<and>
      l' \<in> set (leads db') \<and>
      (\<forall>j. pld_id pl = Some j \<longrightarrow> ld_id l' = j) \<and>
      (\<forall>c. pld_createdAt pl = Some c \<longrightarrow> ld_createdAt l' = c) \<and>
      (\<forall>t. pld_updatedAt pl = Some t \<longrightarrow> ld_updatedAt l' = now)"
    using found by (simp add: updateLead_completes set_col_def del: set_map)
qed

theorem partial_update_overwrites_identity_witness:
  "updateUser Completes 2000 demo_store ''u1''
      (no_user_updates\<lparr>pu_id := Some ''u7'', pu_createdAt := Some 5, pu_updatedAt := Some 6\<rparr>) =
     Inr (demo_store\<lparr>users := [alice\<lparr>u_id := ''u7'', u_createdAt := 5, u_updatedAt := 2000\<rparr>]\<rparr>,
          alice\<lparr>u_id := ''u7'', u_createdAt := 5, u_updatedAt := 2000\<rparr>) \<and>
   updateLoanApplication Completes 2000 demo_store ''a1''
      (no_application_updates\<lparr>pla_id := Some ''a7'', pla_createdAt := Some 5,
                               pla_updatedAt := Some 6\<rparr>) =
     Inr (demo_store\<lparr>loanApplications :=
            [application1\<lparr>la_id := ''a7'', la_createdAt := 5, la_updatedAt := 2000\<rparr>]\<rparr>,
          application1\<lparr>la_id := ''a7'', la_createdAt := 5, la_updatedAt := 2000\<rparr>) \<and>
   updateDsaPartner Completes 2000 demo_store ''d1''
      (no_partner_updates\<lparr>pdp_id := Some ''d7'', pdp_createdAt := Some 5,
                           pdp_updatedAt := Some 6\<rparr>) =
     Inr (demo_store\<lparr>dsaPartners :=
            [partner1\<lparr>dp_id := ''d7'', dp_createdAt := 5, dp_updatedAt := 2000\<rparr>]\<rparr>,
          partner1\<lparr>dp_id := ''d7'', dp_createdAt := 5, dp_updatedAt := 2000\<rparr>) \<and>
   updateLead Completes 2000 demo_store ''l1''
      (no_lead_updates\<lparr>pld_id := Some ''l7'', pld_createdAt := Some 5, pld_updatedAt := Some 6\<rparr>) =
     Inr (demo_store\<lparr>leads := [lead1\<lparr>ld_id := ''l7'', ld_createdAt := 5, ld_updatedAt := 2000\<rparr>]\<rparr>,
          lead1\<lparr>ld_id := ''l7'', ld_createdAt := 5, ld_updatedAt := 2000\<rparr>)"
  using partial_update_overwrites_identity
      [where db = demo_store and now = 2000
         and uid = "''u1''" and u = alice
         and pu = "no_user_updates\<lparr>pu_id := Some ''u7'', pu_createdAt := Some 5,
                                     pu_updatedAt := Some 6\<rparr>"
         and aid = "''a1''" and a = application1
         and pa = "no_application_updates\<lparr>pla_id := Some ''a7'', pla_createdAt := Some 5,
                                            pla_updatedAt := Some 6\<rparr>"
         and did = "''d1''" and d = partner1
         and pd = "no_partner_updates\<lparr>pdp_id := Some ''d7'', pdp_createdAt := Some 5,
                                        pdp_updatedAt := Some 6\<rparr>"
         and lid = "''l1''" and l = lead1
         and pl = "no_lead_updates\<lparr>pld_id := Some ''l7'', pld_createdAt := Some 5,
                                     pld_updatedAt := Some 6\<rparr>"]
  by (simp add: updateUser_completes updateLoanApplication_completes updateDsaPartner_completes
      updateLead_completes
      demo_store_def alice_def application1_def partner1_def lead1_def
      no_user_updates_def no_application_updates_def no_partner_updates_def no_lead_updates_def
      set_user_def set_application_def set_partner_def set_lead_def set_col_def)

subsection \<open>Lead creation\<close>

lemma createLead_completes:
  "createLead Completes new_id db_now db lead =
     Inr (db\<lparr>leads := leads db @
              [\<lparr>ld_id = new_id, ld_payload = il_payload lead,
                ld_source = js_or (il_source lead) ''website'', ld_status = ''new'',
                ld_assignedDsaId = None, ld_assignedAt = None,
                ld_createdAt = db_now, ld_updatedAt = db_now\<rparr>]\<rparr>,
          Some \<lparr>ld_id = new_id, ld_payload = il_payload lead,
                ld_source = js_or (il_source lead) ''website'', ld_status = ''new'',
                ld_assignedDsaId = None, ld_assignedAt = None,
                ld_createdAt = db_now, ld_updatedAt = db_now\<rparr>)"
  by (simp add: createLead_def db_insert_def first_row_def)

text \<open>
  Claim C9 as stated (the created lead has the supplied source, or \<open>website\<close> when none
  is supplied, and status \<open>new\<close>) fails for a supplied source that is the empty string:
  \<open>lead.source || "website"\<close> takes the empty string for absent, and the lead is stored
  with source \<open>website\<close>.
\<close>

theorem createLead_empty_source_replaced:
  "createLead Completes ''l2'' 1500 demo_store
      \<lparr>il_payload = ''walk-in'', il_source = Some '''', il_status = None\<rparr> =
     Inr (demo_store\<lparr>leads := [lead1,
            \<lparr>ld_id = ''l2'', ld_payload = ''walk-in'', ld_source = ''website'', ld_status = ''new'',
             ld_assignedDsaId = None, ld_assignedAt = None, ld_createdAt = 1500,
             ld_updatedAt = 1500\<rparr>]\<rparr>,
          Some \<lparr>ld_id = ''l2'', ld_payload = ''walk-in'', ld_source = ''website'',
                ld_status = ''new'', ld_assignedDsaId = None, ld_assignedAt = None,
                ld_createdAt = 1500, ld_updatedAt = 1500\<rparr>) \<and>
   ''website'' \<noteq> ''''"
  by (simp add: createLead_completes demo_store_def js_or_def)

text \<open>
  Claim C9, amended. For every creation input the lead returned by \<open>createLead\<close> has
  status \<open>new\<close> whatever status the caller supplies; its source is the supplied source
  when that is a non-empty string, and \<open>website\<close> when no source or the empty string is
  supplied.
\<close>

theorem createLead_source_and_status:
  "\<exists>l. createLead Completes new_id db_now db lead = Inr (db\<lparr>leads := leads db @ [l]\<rparr>, Some l) \<and>
     ld_status l = ''new'' \<and>
     (il_source lead = None \<longrightarrow> ld_source l = ''website'') \<and>
     (il_source lead = Some '''' \<longrightarrow> ld_source l = ''website'') \<and>
     (\<forall>s. il_source lead = Some s \<longrightarrow> s \<noteq> '''' \<longrightarrow> ld_source l = s)"
  by (simp add: createLead_completes js_or_def)

theorem createLead_source_and_status_witness:
  "(\<exists>l. createLead Completes ''l2'' 1500 demo_store
        \<lparr>il_payload = ''walk-in'', il_source = Some ''referral'', il_status = Some ''won''\<rparr> =
        Inr (demo_store\<lparr>leads := [lead1, l]\<rparr>, Some l) \<and>
      ld_source l = ''referral'' \<and> ld_status l = ''new'') \<and>
   (\<exists>l. createLead Completes ''l2'' 1500 demo_store
        \<lparr>il_payload = ''walk-in'', il_source = None, il_status = Some ''won''\<rparr> =
        Inr (demo_store\<lparr>leads := [lead1, l]\<rparr>, Some l) \<and>
      ld_source l = ''website'' \<and> ld_status l = ''new'')"
  using createLead_source_and_status
      [of "''l2''" 1500 demo_store
          "\<lparr>il_payload = ''walk-in'', il_source = Some ''referral'', il_status = Some ''won''\<rparr>"]
    createLead_source_and_status
      [of "''l2''" 1500 demo_store
          "\<lparr>il_payload = ''walk-in'', il_source = None, il_status = Some ''won''\<rparr>"]
  by (simp add: createLead_completes demo_store_def js_or_def)

subsection \<open>Bootstrap\<close>

lemma none_selected: "(min (length rows) (Suc 0) = 0) = (rows = [])"
  by (cases rows) simp_all

lemma DatabaseStorage_unchanged:
  "be_select env = Fails \<or> be_insert env = Fails \<or> admin_count db \<noteq> 0 \<Longrightarrow>
     DatabaseStorage B env db = db"
  by (cases "be_select env"; cases "be_insert env")
    (auto simp: DatabaseStorage_def initializeDefaultUsers_def default_users_try_def
      db_select_def db_insert_def admin_count_def Let_def none_selected)

lemma DatabaseStorage_admin_count:
  "admin_count (DatabaseStorage B env db) =
     (if be_select env = Completes \<and> be_insert env = Completes \<and> admin_count db = 0
      then 1 else admin_count db)"
  by (cases "be_select env"; cases "be_insert env")
    (auto simp: DatabaseStorage_def initializeDefaultUsers_def default_users_try_def
      db_select_def db_insert_def admin_count_def Let_def none_selected)

lemma try_failure_caught:
  "default_users_try B env db = Inl e \<Longrightarrow>
     initializeDefaultUsers B env db = (db, [''Error initializing default users:''])"
  by (simp add: initializeDefaultUsers_def)

lemma process_starts_at_most_one:
  "admin_count db \<le> 1 \<Longrightarrow> admin_count (process_starts B envs db) \<le> 1"
proof (induction envs arbitrary: db)
  case Nil
  then show ?case by simp
next
  case (Cons env envs)
  have "admin_count (DatabaseStorage B env db) \<le> 1"
    using Cons.prems by (simp add: DatabaseStorage_admin_count)
  then show ?case
    using Cons.IH by simp
qed

lemma process_starts_keeps_one:
  "admin_count db = 1 \<Longrightarrow> admin_count (process_starts B envs db) = 1"
proof (induction envs arbitrary: db)
  case Nil
  then show ?case by simp
next
  case (Cons env envs)
  have "admin_count (DatabaseStorage B env db) = 1"
    using Cons.prems by (simp add: DatabaseStorage_admin_count)
  then show ?case
    using Cons.IH by simp
qed

lemma process_starts_exactly_one:
  "admin_count db \<le> 1 \<Longrightarrow>
   \<exists>env\<in>set envs. be_select env = Completes \<and> be_insert env = Completes \<Longrightarrow>
   admin_count (process_starts B envs db) = 1"
proof (induction envs arbitrary: db)
  case Nil
  then show ?case by simp
next
  case (Cons env envs)
  show ?case
  proof (cases "be_select env = Completes \<and> be_insert env = Completes")
    case True
    then have "admin_count (DatabaseStorage B env db) = 1"
      using Cons.prems(1) by (simp add: DatabaseStorage_admin_count)
    then show ?thesis
      by (simp add: process_starts_keeps_one)
  next
    case False
    then have later: "\<exists>env\<in>set envs. be_select env = Completes \<and> be_insert env = Completes"
      using Cons.prems(2) by auto
    have "admin_count (DatabaseStorage B env db) \<le> 1"
      using Cons.prems(1) by (simp add: DatabaseStorage_admin_count)
    from Cons.IH [OF this later] show ?thesis by simp
  qed
qed

text \<open>
  Claim C8 (bootstrap is idempotent and not fatal). Over a store with at most one user
  named \<open>admin\<close> (usernames are unique), any sequence of process starts leaves at most
  one such user, and exactly one as soon as the engine carries out the check and the
  create of one of the starts, however many starts come before or after it. A failure in
  the \<open>try\<close> block is caught: \<open>initializeDefaultUsers\<close> returns with the store as it was
  and the error on the console, and the constructor yields the gateway over that store.
\<close>

theorem bootstrap_idempotent_and_nonfatal:
  "(admin_count db \<le> 1 \<longrightarrow>
      admin_count (process_starts B envs db) \<le> 1 \<and>
      ((\<exists>env\<in>set envs. be_select env = Completes \<and> be_insert env = Completes) \<longrightarrow>
         admin_count (process_starts B envs db) = 1)) \<and>
   (\<forall>e. default_users_try B env db = Inl e \<longrightarrow>
      initializeDefaultUsers B env db = (db, [''Error initializing default users:''])) \<and>
   (be_select env = Fails \<or> be_insert env = Fails \<longrightarrow> DatabaseStorage B env db = db)"
  using process_starts_at_most_one [of db B envs] process_starts_exactly_one [of db envs B]
    try_failure_caught [of B env db] DatabaseStorage_unchanged [of env db B]
  by blast

theorem bootstrap_idempotent_and_nonfatal_witness:
  "admin_count empty_store = 0 \<and>
   admin_count (process_starts demo_bcrypt [boot_ok, boot_ok] empty_store) = 1 \<and>
   admin_count (process_starts demo_bcrypt [boot_down, boot_ok, boot_ok] empty_store) = 1 \<and>
   default_users_try demo_bcrypt boot_down empty_store = Inl PersistenceFailure \<and>
   initializeDefaultUsers demo_bcrypt boot_down empty_store =
     (empty_store, [''Error initializing default users:'']) \<and>
   DatabaseStorage demo_bcrypt boot_down empty_store = empty_store"
  using bootstrap_idempotent_and_nonfatal
      [of empty_store demo_bcrypt "[boot_ok, boot_ok]" boot_down]
    bootstrap_idempotent_and_nonfatal
      [of empty_store demo_bcrypt "[boot_down, boot_ok, boot_ok]" boot_down]
  by (simp add: admin_count_def empty_store_def boot_ok_def boot_down_def
      default_users_try_def initializeDefaultUsers_def DatabaseStorage_def
      db_select_def db_insert_def)

end
